theory Spec2Isabelle
  imports Main
begin

section \<open>Platform data read by the bot\<close>

text \<open>
  The bot (src/bot.py) is a layer over the discord.py client. The model keeps what the
  code reads from the platform as record fields, and what the code does to the platform
  as a trace of events, in call order. The two JSON files are part of the state.

  A role is known to the code by its \<open>id\<close> and by its place in the guild's linear role
  hierarchy, which is what the comparison \<open>role >= other\<close> of the client library
  compares; \<open>rank\<close> is that place.
\<close>

record role =
  role_id :: int
  rank :: nat

definition role_ge :: "role \<Rightarrow> role \<Rightarrow> bool" where
  "role_ge a b = (rank b \<le> rank a)"

text \<open>
  \<open>member.send\<close> either delivers the message or raises \<open>discord.Forbidden\<close> (the member
  does not accept direct messages). The other platform calls are modelled as calls that
  return; their failures are not handled by the source and no property below is about
  them.
\<close>

datatype send_result = Delivered | Forbidden

record member =
  member_id :: int
  member_name :: string
  administrator :: bool
  roles :: "role list"
  top_role :: role
  dm :: send_result

text \<open>
  An interaction: the acting user, the guild it happens in (id, name, the ids of its
  channels), the channel it was typed in, and the reading of the clock
  (\<open>datetime.utcnow().isoformat()\<close>) during the call.
\<close>

record interaction =
  user :: member
  guild_id :: int
  guild_name :: string
  guild_channels :: "int list"
  channel_id :: int
  utcnow :: string

section \<open>Python helpers\<close>

text \<open>\<open>str\<close> on an integer: decimal digits, a minus sign when negative.\<close>

fun str_nat :: "nat \<Rightarrow> string" where
  "str_nat n =
     (if n < 10 then [''0123456789'' ! n]
      else str_nat (n div 10) @ [''0123456789'' ! (n mod 10)])"

declare str_nat.simps [simp del]

definition str :: "int \<Rightarrow> string" where
  "str n = (if n < 0 then CHR ''-'' # str_nat (nat (- n)) else str_nat (nat n))"

text \<open>\<open>d.get(k, default)\<close> and \<open>d.setdefault(k, default)\<close>; the latter returns the value
  now stored under the key together with the dictionary as it is after the call.\<close>

definition dict_get :: "('k \<rightharpoonup> 'v) \<Rightarrow> 'k \<Rightarrow> 'v \<Rightarrow> 'v" where
  "dict_get d k dflt = (case d k of None \<Rightarrow> dflt | Some v \<Rightarrow> v)"

definition setdefault :: "('k \<rightharpoonup> 'v) \<Rightarrow> 'k \<Rightarrow> 'v \<Rightarrow> 'v \<times> ('k \<rightharpoonup> 'v)" where
  "setdefault d k dflt = (case d k of None \<Rightarrow> (dflt, d(k \<mapsto> dflt)) | Some v \<Rightarrow> (v, d))"

section \<open>The two JSON documents\<close>

text \<open>
  The config document maps a guild id (as a string) to an object with the optional keys
  \<open>mod_role_id\<close> and \<open>admin_role_id\<close>; the warnings document maps a guild id to a map from
  user id to the list of warning records.
\<close>

record guild_config =
  mod_role_id :: "int option"
  admin_role_id :: "int option"

type_synonym config = "string \<rightharpoonup> guild_config"

record warning =
  reason :: string
  moderator :: string
  timestamp :: string

type_synonym warn_doc = "string \<rightharpoonup> (string \<rightharpoonup> warning list)"

text \<open>
  A backing file, by what \<open>os.path.exists\<close>, \<open>open\<close> and \<open>json.load\<close> make of it:
  \<^item> \<open>Missing\<close>: \<open>os.path.exists\<close> is false;
  \<^item> \<open>Unreadable\<close>: the file is there and \<open>open\<close> raises \<open>OSError\<close> (no permission, a
    directory);
  \<^item> \<open>Undecodable\<close>: the file opens, in text mode, and its bytes are not text in the
    encoding of the file object, so that \<open>json.load\<close> raises \<open>UnicodeDecodeError\<close> while
    reading it;
  \<^item> \<open>Corrupt\<close>: the bytes are text and the text is not JSON, so that \<open>json.load\<close> raises
    \<open>JSONDecodeError\<close>;
  \<^item> \<open>Document d\<close>: the file holds the JSON text of a document \<open>d\<close> of the shape the bot
    writes, which \<open>json.load\<close> returns.
  JSON text of another shape (a list, a number) is outside these cases: the loaders
  return it as it is and the first use by the caller fails.
\<close>

datatype 'd backing_file = Missing | Unreadable | Undecodable | Corrupt | Document 'd

datatype error =
  OSError | UnicodeDecodeError | JSONDecodeError | AttributeError | CheckFailure

datatype result = Completed | Raised error

section \<open>Messages and platform calls\<close>

text \<open>
  The texts and embeds the bot sends, by kind, with the values the source puts into them
  (ids, reasons, the moderator, counts); colours, emoji and the rendering of field names
  are left out.
\<close>

datatype message =
    NeedModOrAdmin
  | NeedAdmin
  | ModRoleSet int
  | AdminRoleSet int
  | CannotBan
  | CannotKick
  | CannotTimeout
  | CannotAssignRole
  | YouWereBanned string string string
  | MemberBanned int string int
  | MemberUnbanned int string int
  | UserNotFound
  | InvalidUserId
  | WarningsCleared int int
  | Announcement string string "int option" string
  | AnnouncementSent int
  | RoleChanged int int string int
  | YouWereKicked string string string
  | MemberKicked int string int
  | MemberTimedOut int nat string int
  | TimeoutRemoved int string int
  | YouWereWarned string string string nat
  | MemberWarned int string nat int
  | NoWarnings int
  | WarningList int "warning list"
  | MessagesPurged int "int option" int
  | SlowmodeUpdated int nat int
  | ChannelLocked int string int
  | LockNotice
  | ChannelUnlocked int string int
  | UnlockNotice

datatype event =
    Respond bool message
  | Defer bool
  | Followup bool message
  | DirectMessage int message
  | ChannelSend int message
  | BanMember int string string nat
  | UnbanUser int string string
  | KickMember int string string
  | TimeoutMember int "nat option" string string
  | AddRoles int int string
  | RemoveRoles int int string
  | PurgeChannel int nat "int option"
  | EditSlowmode int nat
  | SetSendMessages int "bool option" string

text \<open>
  The outcome of \<open>bot.fetch_user(int(user_id))\<close> followed by \<open>guild.unban\<close> for a user id
  typed by the moderator: the text is not an integer (\<open>ValueError\<close>), the platform knows
  no such user or ban (\<open>discord.NotFound\<close>), or the user is found.
\<close>

datatype fetch_result = BadId | NotFound | Found int

text \<open>
  The state: the two files, the module constant \<open>LOG_CHANNEL_ID\<close> read from the
  environment at start, what the platform answers to a user lookup, whether the client
  library has an attribute \<open>timedelta\<close> (the source calls \<open>discord.timedelta\<close>), and the
  calls made so far.
\<close>

record world =
  config_file :: "config backing_file"
  warn_file :: "warn_doc backing_file"
  LOG_CHANNEL_ID :: "int option"
  fetch_user :: "string \<Rightarrow> fetch_result"
  has_timedelta :: bool
  trace :: "event list"

section \<open>Config and warning helpers\<close>

definition load_config :: "world \<Rightarrow> error + config" where
  "load_config w =
     (case config_file w of
        Missing \<Rightarrow> Inr Map.empty
      | Unreadable \<Rightarrow> Inl OSError
      | Undecodable \<Rightarrow> Inl UnicodeDecodeError
      | Corrupt \<Rightarrow> Inl JSONDecodeError
      | Document d \<Rightarrow> Inr d)"

definition save_config :: "config \<Rightarrow> world \<Rightarrow> world" where
  "save_config data w = w\<lparr>config_file := Document data\<rparr>"

definition get_mod_role_id :: "world \<Rightarrow> int \<Rightarrow> error + int option" where
  "get_mod_role_id w gid =
     (case load_config w of
        Inl e \<Rightarrow> Inl e
      | Inr d \<Rightarrow> Inr (case d (str gid) of None \<Rightarrow> None | Some c \<Rightarrow> mod_role_id c))"

definition get_admin_role_id :: "world \<Rightarrow> int \<Rightarrow> error + int option" where
  "get_admin_role_id w gid =
     (case load_config w of
        Inl e \<Rightarrow> Inl e
      | Inr d \<Rightarrow> Inr (case d (str gid) of None \<Rightarrow> None | Some c \<Rightarrow> admin_role_id c))"

definition load_warnings :: "world \<Rightarrow> error + warn_doc" where
  "load_warnings w =
     (case warn_file w of
        Missing \<Rightarrow> Inr Map.empty
      | Unreadable \<Rightarrow> Inl OSError
      | Undecodable \<Rightarrow> Inl UnicodeDecodeError
      | Corrupt \<Rightarrow> Inl JSONDecodeError
      | Document d \<Rightarrow> Inr d)"

definition save_warnings :: "warn_doc \<Rightarrow> world \<Rightarrow> world" where
  "save_warnings data w = w\<lparr>warn_file := Document data\<rparr>"

section \<open>Shared helpers\<close>

definition emit :: "event \<Rightarrow> world \<Rightarrow> world" where
  "emit e w = w\<lparr>trace := trace w @ [e]\<rparr>"

definition respond :: "bool \<Rightarrow> message \<Rightarrow> world \<Rightarrow> world" where
  "respond ephemeral msg w = emit (Respond ephemeral msg) w"

text \<open>\<open>log\<close>: send the embed to the log channel when \<open>LOG_CHANNEL_ID\<close> is set (and not
  zero, which Python takes for false) and the guild has that channel.\<close>

definition log :: "interaction \<Rightarrow> message \<Rightarrow> world \<Rightarrow> world" where
  "log i emb w =
     (case LOG_CHANNEL_ID w of
        None \<Rightarrow> w
      | Some c \<Rightarrow>
          if c \<noteq> 0 \<and> c \<in> set (guild_channels i) then emit (ChannelSend c emb) w else w)"

text \<open>\<open>try: await member.send(...) except discord.Forbidden: pass\<close>\<close>

definition send_dm :: "member \<Rightarrow> message \<Rightarrow> world \<Rightarrow> world" where
  "send_dm m msg w =
     (case dm m of
        Delivered \<Rightarrow> emit (DirectMessage (member_id m) msg) w
      | Forbidden \<Rightarrow> w)"

section \<open>Permission checks\<close>

text \<open>\<open>x and x in role_ids\<close> for an optional id: \<open>None\<close> and \<open>0\<close> are false in Python.\<close>

fun configured_in :: "int option \<Rightarrow> int set \<Rightarrow> bool" where
  "configured_in None ids = False"
| "configured_in (Some r) ids = (r \<noteq> 0 \<and> r \<in> ids)"

definition is_mod :: "world \<Rightarrow> interaction \<Rightarrow> (error + bool) \<times> world" where
  "is_mod w i =
     (if administrator (user i) then (Inr True, w)
      else
        case get_admin_role_id w (guild_id i) of
          Inl e \<Rightarrow> (Inl e, w)
        | Inr admin_id \<Rightarrow>
            (case get_mod_role_id w (guild_id i) of
               Inl e \<Rightarrow> (Inl e, w)
             | Inr mod_id \<Rightarrow>
                 let role_ids = role_id ` set (roles (user i)) in
                 if configured_in admin_id role_ids \<or> configured_in mod_id role_ids
                 then (Inr True, w)
                 else (Inr False, respond True NeedModOrAdmin w)))"

definition is_admin :: "world \<Rightarrow> interaction \<Rightarrow> (error + bool) \<times> world" where
  "is_admin w i =
     (if administrator (user i) then (Inr True, w)
      else
        case get_admin_role_id w (guild_id i) of
          Inl e \<Rightarrow> (Inl e, w)
        | Inr admin_id \<Rightarrow>
            if configured_in admin_id (role_id ` set (roles (user i)))
            then (Inr True, w)
            else (Inr False, respond True NeedAdmin w))"

section \<open>Admin-only commands\<close>

text \<open>
  Each handler takes the state and returns how the call ended and the state after it.
  A handler that returns normally, also after an early \<open>return\<close>, ends \<open>Completed\<close>.
\<close>

definition setmodrole :: "world \<Rightarrow> interaction \<Rightarrow> role \<Rightarrow> result \<times> world" where
  "setmodrole w i r =
     (case load_config w of
        Inl e \<Rightarrow> (Raised e, w)
      | Inr data \<Rightarrow>
          let gkey = str (guild_id i);
              (entry, data1) = setdefault data gkey \<lparr>mod_role_id = None, admin_role_id = None\<rparr>;
              data2 = data1(gkey \<mapsto> entry\<lparr>mod_role_id := Some (role_id r)\<rparr>);
              w1 = save_config data2 w
          in (Completed, respond True (ModRoleSet (role_id r)) w1))"

definition setadminrole :: "world \<Rightarrow> interaction \<Rightarrow> role \<Rightarrow> result \<times> world" where
  "setadminrole w i r =
     (case load_config w of
        Inl e \<Rightarrow> (Raised e, w)
      | Inr data \<Rightarrow>
          let gkey = str (guild_id i);
              (entry, data1) = setdefault data gkey \<lparr>mod_role_id = None, admin_role_id = None\<rparr>;
              data2 = data1(gkey \<mapsto> entry\<lparr>admin_role_id := Some (role_id r)\<rparr>);
              w1 = save_config data2 w
          in (Completed, respond True (AdminRoleSet (role_id r)) w1))"

definition ban :: "world \<Rightarrow> interaction \<Rightarrow> member \<Rightarrow> string \<Rightarrow> nat \<Rightarrow> result \<times> world" where
  "ban w i m why delete_days =
     (if role_ge (top_role m) (top_role (user i))
      then (Completed, respond True CannotBan w)
      else
        let w1 = send_dm m (YouWereBanned (guild_name i) why (member_name (user i))) w;
            w2 = emit (BanMember (member_id m) (member_name (user i)) why delete_days) w1;
            emb = MemberBanned (member_id m) why (member_id (user i));
            w3 = respond False emb w2
        in (Completed, log i emb w3))"

definition unban :: "world \<Rightarrow> interaction \<Rightarrow> string \<Rightarrow> string \<Rightarrow> result \<times> world" where
  "unban w i user_id why =
     (case fetch_user w user_id of
        Found uid \<Rightarrow>
          let w1 = emit (UnbanUser uid (member_name (user i)) why) w;
              emb = MemberUnbanned uid why (member_id (user i));
              w2 = respond False emb w1
          in (Completed, log i emb w2)
      | NotFound \<Rightarrow> (Completed, respond True UserNotFound w)
      | BadId \<Rightarrow> (Completed, respond True InvalidUserId w))"

text \<open>\<open>data.get(guild_id, {}).pop(user_id, None)\<close>: when the guild has an entry, the
  user's key is removed from it; when it has none, the \<open>pop\<close> is on a fresh dictionary and
  the document stays as it is. The document is written back in both cases.\<close>

definition clearwarnings :: "world \<Rightarrow> interaction \<Rightarrow> member \<Rightarrow> result \<times> world" where
  "clearwarnings w i m =
     (case load_warnings w of
        Inl e \<Rightarrow> (Raised e, w)
      | Inr data \<Rightarrow>
          let gkey = str (guild_id i);
              ukey = str (member_id m);
              data1 = (case data gkey of
                         None \<Rightarrow> data
                       | Some inner \<Rightarrow> data(gkey \<mapsto> inner(ukey := None)));
              w1 = save_warnings data1 w;
              emb = WarningsCleared (member_id m) (member_id (user i));
              w2 = respond False emb w1
          in (Completed, log i emb w2))"

definition announce ::
  "world \<Rightarrow> interaction \<Rightarrow> int \<Rightarrow> string \<Rightarrow> string \<Rightarrow> int option \<Rightarrow> result \<times> world" where
  "announce w i channel title body ping =
     (let w1 = emit (ChannelSend channel (Announcement title body ping (member_name (user i)))) w
      in (Completed, respond True (AnnouncementSent channel) w1))"

definition role_cmd ::
  "world \<Rightarrow> interaction \<Rightarrow> member \<Rightarrow> role \<Rightarrow> string \<Rightarrow> result \<times> world" where
  "role_cmd w i m r action =
     (if role_ge r (top_role (user i)) \<and> \<not> administrator (user i)
      then (Completed, respond True CannotAssignRole w)
      else
        let (w1, verb) =
              (if action = ''add''
               then (emit (AddRoles (member_id m) (role_id r) (member_name (user i))) w, ''Added'')
               else (emit (RemoveRoles (member_id m) (role_id r) (member_name (user i))) w,
                     ''Removed''));
            emb = RoleChanged (member_id m) (role_id r) verb (member_id (user i));
            w2 = respond False emb w1
        in (Completed, log i emb w2))"

section \<open>Moderator commands\<close>

definition kick :: "world \<Rightarrow> interaction \<Rightarrow> member \<Rightarrow> string \<Rightarrow> result \<times> world" where
  "kick w i m why =
     (if role_ge (top_role m) (top_role (user i))
      then (Completed, respond True CannotKick w)
      else
        let w1 = send_dm m (YouWereKicked (guild_name i) why (member_name (user i))) w;
            w2 = emit (KickMember (member_id m) (member_name (user i)) why) w1;
            emb = MemberKicked (member_id m) why (member_id (user i));
            w3 = respond False emb w2
        in (Completed, log i emb w3))"

text \<open>After the hierarchy check the source computes the deadline with
  \<open>discord.timedelta\<close>; where the library has no such attribute the call ends there with
  \<open>AttributeError\<close>.\<close>

definition timeout_cmd ::
  "world \<Rightarrow> interaction \<Rightarrow> member \<Rightarrow> nat \<Rightarrow> string \<Rightarrow> result \<times> world" where
  "timeout_cmd w i m minutes why =
     (if role_ge (top_role m) (top_role (user i))
      then (Completed, respond True CannotTimeout w)
      else if \<not> has_timedelta w then (Raised AttributeError, w)
      else
        let w1 = emit (TimeoutMember (member_id m) (Some minutes) (member_name (user i)) why) w;
            emb = MemberTimedOut (member_id m) minutes why (member_id (user i));
            w2 = respond False emb w1
        in (Completed, log i emb w2))"

definition untimeout_cmd :: "world \<Rightarrow> interaction \<Rightarrow> member \<Rightarrow> string \<Rightarrow> result \<times> world" where
  "untimeout_cmd w i m why =
     (let w1 = emit (TimeoutMember (member_id m) None (member_name (user i)) why) w;
          emb = TimeoutRemoved (member_id m) why (member_id (user i));
          w2 = respond False emb w1
      in (Completed, log i emb w2))"

text \<open>
  \<open>warn\<close>: the two \<open>setdefault\<close> calls return the objects stored in the document, so the
  \<open>append\<close> to the list shows in the document that is saved; \<open>data2\<close> and \<open>data3\<close> write
  that sharing out. The count is the length of the list after the append.
\<close>

definition warn :: "world \<Rightarrow> interaction \<Rightarrow> member \<Rightarrow> string \<Rightarrow> result \<times> world" where
  "warn w i m why =
     (case load_warnings w of
        Inl e \<Rightarrow> (Raised e, w)
      | Inr data \<Rightarrow>
          let gkey = str (guild_id i);
              ukey = str (member_id m);
              (inner, data1) = setdefault data gkey Map.empty;
              (old, inner1) = setdefault inner ukey [];
              data2 = data1(gkey \<mapsto> inner1);
              entry = \<lparr>reason = why, moderator = member_name (user i), timestamp = utcnow i\<rparr>;
              data3 = data2(gkey \<mapsto> inner1(ukey \<mapsto> old @ [entry]));
              w1 = save_warnings data3 w;
              count = length (old @ [entry]);
              w2 = send_dm m (YouWereWarned (guild_name i) why (member_name (user i)) count) w1;
              emb = MemberWarned (member_id m) why count (member_id (user i));
              w3 = respond False emb w2
          in (Completed, log i emb w3))"

text \<open>The list a \<open>(guild, user)\<close> pair has in a warnings document:
  \<open>data.get(guild_id, {}).get(user_id, [])\<close>.\<close>

definition warns_of :: "warn_doc \<Rightarrow> string \<Rightarrow> string \<Rightarrow> warning list" where
  "warns_of data gkey ukey = dict_get (dict_get data gkey Map.empty) ukey []"

definition warnings :: "world \<Rightarrow> interaction \<Rightarrow> member \<Rightarrow> result \<times> world" where
  "warnings w i m =
     (case load_warnings w of
        Inl e \<Rightarrow> (Raised e, w)
      | Inr data \<Rightarrow>
          let warns = warns_of data (str (guild_id i)) (str (member_id m))
          in if warns = [] then (Completed, respond True (NoWarnings (member_id m)) w)
             else (Completed, respond True (WarningList (member_id m) warns) w))"

definition purge :: "world \<Rightarrow> interaction \<Rightarrow> nat \<Rightarrow> member option \<Rightarrow> result \<times> world" where
  "purge w i amount m =
     (let w1 = emit (Defer True) w;
          w2 = emit (PurgeChannel (channel_id i) amount (map_option member_id m)) w1;
          emb = MessagesPurged (channel_id i) (map_option member_id m) (member_id (user i));
          w3 = emit (Followup True emb) w2
      in (Completed, log i emb w3))"

definition slowmode :: "world \<Rightarrow> interaction \<Rightarrow> nat \<Rightarrow> int option \<Rightarrow> result \<times> world" where
  "slowmode w i seconds channel =
     (let target = (case channel of None \<Rightarrow> channel_id i | Some c \<Rightarrow> c);
          w1 = emit (EditSlowmode target seconds) w;
          emb = SlowmodeUpdated target seconds (member_id (user i));
          w2 = respond False emb w1
      in (Completed, log i emb w2))"

definition lock :: "world \<Rightarrow> interaction \<Rightarrow> int option \<Rightarrow> string \<Rightarrow> result \<times> world" where
  "lock w i channel why =
     (let target = (case channel of None \<Rightarrow> channel_id i | Some c \<Rightarrow> c);
          w1 = emit (SetSendMessages target (Some False) why) w;
          emb = ChannelLocked target why (member_id (user i));
          w2 = respond False emb w1;
          w3 = emit (ChannelSend target LockNotice) w2
      in (Completed, log i emb w3))"

definition unlock :: "world \<Rightarrow> interaction \<Rightarrow> int option \<Rightarrow> string \<Rightarrow> result \<times> world" where
  "unlock w i channel why =
     (let target = (case channel of None \<Rightarrow> channel_id i | Some c \<Rightarrow> c);
          w1 = emit (SetSendMessages target None why) w;
          emb = ChannelUnlocked target why (member_id (user i));
          w2 = respond False emb w1;
          w3 = emit (ChannelSend target UnlockNotice) w2
      in (Completed, log i emb w3))"

section \<open>Dispatch\<close>

text \<open>
  The gated commands with their arguments. A command runs its check first (the decorator
  \<open>@is_admin()\<close> or \<open>@is_mod()\<close>); when the predicate returns \<open>False\<close> the library raises
  \<open>CheckFailure\<close> and does not call the handler.
\<close>

datatype command =
    SetModRole role
  | SetAdminRole role
  | Ban member string nat
  | Unban string string
  | ClearWarnings member
  | Announce int string string "int option"
  | RoleCmd member role string
  | Kick member string
  | Timeout member nat string
  | Untimeout member string
  | Warn member string
  | Warnings member
  | Purge nat "member option"
  | Slowmode nat "int option"
  | Lock "int option" string
  | Unlock "int option" string

fun admin_only :: "command \<Rightarrow> bool" where
  "admin_only (SetModRole r) = True"
| "admin_only (SetAdminRole r) = True"
| "admin_only (Ban m why d) = True"
| "admin_only (Unban u why) = True"
| "admin_only (ClearWarnings m) = True"
| "admin_only (Announce c t b p) = True"
| "admin_only (RoleCmd m r a) = True"
| "admin_only (Kick m why) = False"
| "admin_only (Timeout m n why) = False"
| "admin_only (Untimeout m why) = False"
| "admin_only (Warn m why) = False"
| "admin_only (Warnings m) = False"
| "admin_only (Purge n m) = False"
| "admin_only (Slowmode n c) = False"
| "admin_only (Lock c why) = False"
| "admin_only (Unlock c why) = False"

definition check :: "command \<Rightarrow> world \<Rightarrow> interaction \<Rightarrow> (error + bool) \<times> world" where
  "check c w i = (if admin_only c then is_admin w i else is_mod w i)"

fun handler :: "command \<Rightarrow> world \<Rightarrow> interaction \<Rightarrow> result \<times> world" where
  "handler (SetModRole r) w i = setmodrole w i r"
| "handler (SetAdminRole r) w i = setadminrole w i r"
| "handler (Ban m why d) w i = ban w i m why d"
| "handler (Unban u why) w i = unban w i u why"
| "handler (ClearWarnings m) w i = clearwarnings w i m"
| "handler (Announce c t b p) w i = announce w i c t b p"
| "handler (RoleCmd m r a) w i = role_cmd w i m r a"
| "handler (Kick m why) w i = kick w i m why"
| "handler (Timeout m n why) w i = timeout_cmd w i m n why"
| "handler (Untimeout m why) w i = untimeout_cmd w i m why"
| "handler (Warn m why) w i = warn w i m why"
| "handler (Warnings m) w i = warnings w i m"
| "handler (Purge n m) w i = purge w i n m"
| "handler (Slowmode n c) w i = slowmode w i n c"
| "handler (Lock c why) w i = lock w i c why"
| "handler (Unlock c why) w i = unlock w i c why"

definition invoke :: "world \<Rightarrow> interaction \<Rightarrow> command \<Rightarrow> result \<times> world" where
  "invoke w i c =
     (case check c w i of
        (Inl e, w') \<Rightarrow> (Raised e, w')
      | (Inr ok, w') \<Rightarrow> if ok then handler c w' i else (Raised CheckFailure, w'))"

section \<open>Notions used to state the properties\<close>

text \<open>The events \<open>log\<close> adds to the trace.\<close>

definition log_events :: "world \<Rightarrow> interaction \<Rightarrow> message \<Rightarrow> event list" where
  "log_events w i emb =
     (case LOG_CHANNEL_ID w of
        None \<Rightarrow> []
      | Some c \<Rightarrow> if c \<noteq> 0 \<and> c \<in> set (guild_channels i) then [ChannelSend c emb] else [])"

text \<open>
  The permission rules as the specification words them: a member holds a configured role
  when the role is configured and its id is among the ids of the member's roles.
\<close>

definition holds_role :: "member \<Rightarrow> int option \<Rightarrow> bool" where
  "holds_role u rid = (case rid of None \<Rightarrow> False | Some r \<Rightarrow> r \<in> role_id ` set (roles u))"

definition configured_admin_role :: "config \<Rightarrow> int \<Rightarrow> int option" where
  "configured_admin_role cfg gid =
     (case cfg (str gid) of None \<Rightarrow> None | Some c \<Rightarrow> admin_role_id c)"

definition configured_mod_role :: "config \<Rightarrow> int \<Rightarrow> int option" where
  "configured_mod_role cfg gid =
     (case cfg (str gid) of None \<Rightarrow> None | Some c \<Rightarrow> mod_role_id c)"

definition can_moderate_spec :: "config \<Rightarrow> member \<Rightarrow> int \<Rightarrow> bool" where
  "can_moderate_spec cfg u gid =
     (administrator u \<or> holds_role u (configured_admin_role cfg gid)
      \<or> holds_role u (configured_mod_role cfg gid))"

definition can_administer_spec :: "config \<Rightarrow> member \<Rightarrow> int \<Rightarrow> bool" where
  "can_administer_spec cfg u gid =
     (administrator u \<or> holds_role u (configured_admin_role cfg gid))"

text \<open>The privileged platform calls: what a command does to a member, a user or a
  channel, as opposed to what it answers or reports.\<close>

fun privileged :: "event \<Rightarrow> bool" where
  "privileged (Respond b msg) = False"
| "privileged (Defer b) = False"
| "privileged (Followup b msg) = False"
| "privileged (DirectMessage u msg) = False"
| "privileged (ChannelSend c msg) = False"
| "privileged (BanMember u md why d) = True"
| "privileged (UnbanUser u md why) = True"
| "privileged (KickMember u md why) = True"
| "privileged (TimeoutMember u n md why) = True"
| "privileged (AddRoles u r md) = True"
| "privileged (RemoveRoles u r md) = True"
| "privileged (PurgeChannel c n u) = True"
| "privileged (EditSlowmode c n) = True"
| "privileged (SetSendMessages c b why) = True"

text \<open>The hierarchy check of a command, where its handler has one: for \<open>ban\<close>, \<open>kick\<close>
  and \<open>timeout\<close> the target's top role against the actor's, for \<open>role\<close> the role to add
  or remove against the actor's top role, unless the actor has the administrator
  permission.\<close>

fun hierarchy_rejects :: "interaction \<Rightarrow> command \<Rightarrow> bool" where
  "hierarchy_rejects i (Ban m why d) = role_ge (top_role m) (top_role (user i))"
| "hierarchy_rejects i (Kick m why) = role_ge (top_role m) (top_role (user i))"
| "hierarchy_rejects i (Timeout m n why) = role_ge (top_role m) (top_role (user i))"
| "hierarchy_rejects i (RoleCmd m r a) =
     (role_ge r (top_role (user i)) \<and> \<not> administrator (user i))"
| "hierarchy_rejects i c = False"

text \<open>A run of \<open>warn\<close> calls, one after the other, each with its own interaction, target
  and reason; and the counts that the public answers of \<open>warn\<close> in a trace carry, in the
  order of the trace.\<close>

fun warn_all :: "world \<Rightarrow> (interaction \<times> member \<times> string) list \<Rightarrow> result list \<times> world" where
  "warn_all w [] = ([], w)"
| "warn_all w ((i, m, why) # cs) =
     (let (r, w1) = warn w i m why; (rs, w2) = warn_all w1 cs in (r # rs, w2))"

fun reported_count :: "event \<Rightarrow> nat option" where
  "reported_count (Respond b (MemberWarned u why n md)) = Some n"
| "reported_count e = None"

definition warn_counts :: "event list \<Rightarrow> nat list" where
  "warn_counts tr = List.map_filter reported_count tr"

text \<open>The warnings document after the pair's entry has been popped, and the record a
  \<open>warn\<close> call appends.\<close>

definition cleared :: "warn_doc \<Rightarrow> string \<Rightarrow> string \<Rightarrow> warn_doc" where
  "cleared d g u = (case d g of None \<Rightarrow> d | Some inner \<Rightarrow> d(g \<mapsto> inner(u := None)))"

definition entry_of :: "interaction \<times> member \<times> string \<Rightarrow> warning" where
  "entry_of c = (case c of (i, m, why) \<Rightarrow>
      \<lparr>reason = why, moderator = member_name (user i), timestamp = utcnow i\<rparr>)"

section \<open>Example states\<close>

definition ex_mod_role :: role where
  "ex_mod_role = \<lparr>role_id = 11, rank = 3\<rparr>"

definition ex_admin_role :: role where
  "ex_admin_role = \<lparr>role_id = 22, rank = 5\<rparr>"

definition ex_low_role :: role where
  "ex_low_role = \<lparr>role_id = 33, rank = 1\<rparr>"

definition ex_high_role :: role where
  "ex_high_role = \<lparr>role_id = 44, rank = 9\<rparr>"

text \<open>A moderator, an administrator by configured role, a member above both who accepts
  no direct messages, and a member below both who accepts none either.\<close>

definition ex_moderator :: member where
  "ex_moderator = \<lparr>member_id = 1, member_name = ''mod#1'', administrator = False,
     roles = [ex_mod_role], top_role = ex_mod_role, dm = Delivered\<rparr>"

definition ex_admin :: member where
  "ex_admin = \<lparr>member_id = 2, member_name = ''adm#2'', administrator = False,
     roles = [ex_admin_role], top_role = ex_admin_role, dm = Delivered\<rparr>"

definition ex_senior :: member where
  "ex_senior = \<lparr>member_id = 3, member_name = ''old#3'', administrator = False,
     roles = [ex_high_role], top_role = ex_high_role, dm = Forbidden\<rparr>"

definition ex_junior :: member where
  "ex_junior = \<lparr>member_id = 55, member_name = ''new#55'', administrator = False,
     roles = [ex_low_role], top_role = ex_low_role, dm = Forbidden\<rparr>"

text \<open>A member with the platform's administrator permission and a low top role.\<close>

definition ex_owner :: member where
  "ex_owner = \<lparr>member_id = 9, member_name = ''own#9'', administrator = True,
     roles = [ex_low_role], top_role = ex_low_role, dm = Delivered\<rparr>"

definition ex_config :: config where
  "ex_config = [''100'' \<mapsto> \<lparr>mod_role_id = Some 11, admin_role_id = Some 22\<rparr>]"

definition ex_world :: world where
  "ex_world = \<lparr>config_file = Document ex_config, warn_file = Missing,
     LOG_CHANNEL_ID = Some 900, fetch_user = (\<lambda>u. NotFound), has_timedelta = False,
     trace = []\<rparr>"

definition ex_call :: "member \<Rightarrow> interaction" where
  "ex_call u = \<lparr>user = u, guild_id = 100, guild_name = ''guild'',
     guild_channels = [900, 901], channel_id = 901, utcnow = ''2024-05-01T10:00:00''\<rparr>"

text \<open>Three warnings for the same member of guild 100, by the same moderator.\<close>

definition ex_calls :: "(interaction \<times> member \<times> string) list" where
  "ex_calls = [(ex_call ex_moderator, ex_junior, ''spam''),
     (ex_call ex_moderator, ex_junior, ''flood''),
     (ex_call ex_moderator, ex_junior, ''caps'')]"

text \<open>A warnings document with entries for two members of guild 100.\<close>

definition ex_warning :: warning where
  "ex_warning = \<lparr>reason = ''old'', moderator = ''mod#1'', timestamp = ''2024-04-01T09:00:00''\<rparr>"

definition ex_ledger :: warn_doc where
  "ex_ledger = [''100'' \<mapsto> [''55'' \<mapsto> [ex_warning], ''3'' \<mapsto> [ex_warning, ex_warning]]]"

section \<open>Basic facts\<close>

lemma emit_fields [simp]:
  "config_file (emit e w) = config_file w"
  "warn_file (emit e w) = warn_file w"
  "LOG_CHANNEL_ID (emit e w) = LOG_CHANNEL_ID w"
  "fetch_user (emit e w) = fetch_user w"
  "has_timedelta (emit e w) = has_timedelta w"
  "trace (emit e w) = trace w @ [e]"
  by (simp_all add: emit_def)

lemma respond_fields [simp]:
  "config_file (respond b msg w) = config_file w"
  "warn_file (respond b msg w) = warn_file w"
  "LOG_CHANNEL_ID (respond b msg w) = LOG_CHANNEL_ID w"
  "fetch_user (respond b msg w) = fetch_user w"
  "has_timedelta (respond b msg w) = has_timedelta w"
  "trace (respond b msg w) = trace w @ [Respond b msg]"
  by (simp_all add: respond_def)

lemma log_fields [simp]:
  "config_file (log i emb w) = config_file w"
  "warn_file (log i emb w) = warn_file w"
  "LOG_CHANNEL_ID (log i emb w) = LOG_CHANNEL_ID w"
  "fetch_user (log i emb w) = fetch_user w"
  "has_timedelta (log i emb w) = has_timedelta w"
  "trace (log i emb w) = trace w @ log_events w i emb"
  by (simp_all add: log_def log_events_def split: option.splits)

lemma send_dm_fields [simp]:
  "config_file (send_dm m msg w) = config_file w"
  "warn_file (send_dm m msg w) = warn_file w"
  "LOG_CHANNEL_ID (send_dm m msg w) = LOG_CHANNEL_ID w"
  "fetch_user (send_dm m msg w) = fetch_user w"
  "has_timedelta (send_dm m msg w) = has_timedelta w"
  by (simp_all add: send_dm_def split: send_result.splits)

lemma send_dm_trace:
  "trace (send_dm m msg w) =
     trace w @ (case dm m of Delivered \<Rightarrow> [DirectMessage (member_id m) msg] | Forbidden \<Rightarrow> [])"
  by (simp add: send_dm_def split: send_result.splits)

lemma save_warnings_fields [simp]:
  "config_file (save_warnings d w) = config_file w"
  "warn_file (save_warnings d w) = Document d"
  "LOG_CHANNEL_ID (save_warnings d w) = LOG_CHANNEL_ID w"
  "trace (save_warnings d w) = trace w"
  by (simp_all add: save_warnings_def)

lemma save_config_fields [simp]:
  "config_file (save_config d w) = Document d"
  "warn_file (save_config d w) = warn_file w"
  "LOG_CHANNEL_ID (save_config d w) = LOG_CHANNEL_ID w"
  "trace (save_config d w) = trace w"
  by (simp_all add: save_config_def)

lemma log_events_cong [simp]:
  "log_events (emit e w) i emb = log_events w i emb"
  "log_events (respond b msg w) i emb = log_events w i emb"
  "log_events (send_dm m msg' w) i emb = log_events w i emb"
  "log_events (save_warnings d w) i emb = log_events w i emb"
  "log_events (save_config c w) i emb = log_events w i emb"
  by (simp_all add: log_events_def)

lemma load_config_Document [simp]: "config_file w = Document d \<Longrightarrow> load_config w = Inr d"
  by (simp add: load_config_def)

lemma load_warnings_Document [simp]: "warn_file w = Document d \<Longrightarrow> load_warnings w = Inr d"
  by (simp add: load_warnings_def)

lemma str_100 [simp]: "str 100 = ''100''"
  by (simp add: str_def str_nat.simps)

lemma str_55 [simp]: "str 55 = ''55''"
  by (simp add: str_def str_nat.simps)

lemmas ex_defs =
  ex_mod_role_def ex_admin_role_def ex_low_role_def ex_high_role_def
  ex_moderator_def ex_admin_def ex_senior_def ex_junior_def ex_owner_def
  ex_config_def ex_world_def ex_call_def

section \<open>Permission predicates\<close>

lemma configured_in_holds:
  "\<forall>r\<in>set (roles u). role_id r \<noteq> 0 \<Longrightarrow>
   configured_in rid (role_id ` set (roles u)) = holds_role u rid"
  by (cases rid) (auto simp: holds_role_def)

lemma configured_in_imp_holds:
  "configured_in rid (role_id ` set (roles u)) \<Longrightarrow> holds_role u rid"
  by (cases rid) (auto simp: holds_role_def)

lemma not_holds_not_configured_in:
  "\<not> holds_role u rid \<Longrightarrow> \<not> configured_in rid (role_id ` set (roles u))"
  using configured_in_imp_holds by blast

text \<open>
  C1. With a config document that can be read, and role ids that are platform ids (never
  zero), the check \<open>is_mod\<close> returns true exactly when the acting user has the platform's
  administrator permission, or holds the configured admin role, or holds the configured
  moderator role; \<open>is_admin\<close> returns true exactly when the user has the administrator
  permission or holds the configured admin role. A user without the permission and
  without the admin role is denied by \<open>is_admin\<close>, whatever else the user holds, the
  moderator role included. The administrator permission passes both checks whatever
  the config file holds. Whenever \<open>is_admin\<close> passes, \<open>is_mod\<close> passes.
\<close>

theorem permission_predicates:
  "(load_config w = Inr cfg \<and> (\<forall>r\<in>set (roles (user i)). role_id r \<noteq> 0) \<longrightarrow>
      fst (is_mod w i) = Inr (can_moderate_spec cfg (user i) (guild_id i))
    \<and> fst (is_admin w i) = Inr (can_administer_spec cfg (user i) (guild_id i)))
   \<and> (load_config w = Inr cfg \<and> \<not> administrator (user i)
        \<and> \<not> holds_role (user i) (configured_admin_role cfg (guild_id i)) \<longrightarrow>
      fst (is_admin w i) = Inr False)
   \<and> (administrator (user i) \<longrightarrow>
        fst (is_mod w i) = Inr True \<and> fst (is_admin w i) = Inr True)
   \<and> (fst (is_admin w i) = Inr True \<longrightarrow> fst (is_mod w i) = Inr True)
   \<and> (can_administer_spec cfg (user i) (guild_id i) \<longrightarrow>
        can_moderate_spec cfg (user i) (guild_id i))"
proof (intro conjI impI)
  assume a: "load_config w = Inr cfg \<and> (\<forall>r\<in>set (roles (user i)). role_id r \<noteq> 0)"
  then show "fst (is_mod w i) = Inr (can_moderate_spec cfg (user i) (guild_id i))"
    by (simp add: is_mod_def get_admin_role_id_def get_mod_role_id_def Let_def
        can_moderate_spec_def configured_admin_role_def configured_mod_role_def
        configured_in_holds)
  from a show "fst (is_admin w i) = Inr (can_administer_spec cfg (user i) (guild_id i))"
    by (simp add: is_admin_def get_admin_role_id_def
        can_administer_spec_def configured_admin_role_def configured_in_holds)
next
  assume "load_config w = Inr cfg \<and> \<not> administrator (user i)
        \<and> \<not> holds_role (user i) (configured_admin_role cfg (guild_id i))"
  then show "fst (is_admin w i) = Inr False"
    by (simp add: is_admin_def get_admin_role_id_def configured_admin_role_def
        not_holds_not_configured_in)
next
  assume ad: "administrator (user i)"
  then show "fst (is_mod w i) = Inr True"
    by (simp add: is_mod_def)
  from ad show "fst (is_admin w i) = Inr True"
    by (simp add: is_admin_def)
next
  assume "fst (is_admin w i) = Inr True"
  then show "fst (is_mod w i) = Inr True"
    by (auto simp: is_admin_def is_mod_def get_admin_role_id_def get_mod_role_id_def Let_def
        split: if_splits sum.splits)
next
  assume "can_administer_spec cfg (user i) (guild_id i)"
  then show "can_moderate_spec cfg (user i) (guild_id i)"
    by (auto simp: can_administer_spec_def can_moderate_spec_def)
qed

theorem permission_predicates_witness:
  "fst (is_mod ex_world (ex_call ex_moderator)) = Inr True
   \<and> fst (is_admin ex_world (ex_call ex_moderator)) = Inr False
   \<and> fst (is_admin ex_world (ex_call ex_admin)) = Inr True
   \<and> fst (is_mod ex_world (ex_call ex_admin)) = Inr True"
  using permission_predicates [of ex_world ex_config "ex_call ex_moderator"]
    permission_predicates [of ex_world ex_config "ex_call ex_admin"]
  by (simp add: ex_defs load_config_def can_moderate_spec_def can_administer_spec_def
      holds_role_def configured_admin_role_def configured_mod_role_def)

section \<open>Reading the stores\<close>





section \<open>The config store\<close>

lemma setmodrole_doc:
  assumes "load_config w = Inr cfg"
  shows "setmodrole w i r =
    (Completed, respond True (ModRoleSet (role_id r))
       (save_config (cfg(str (guild_id i) \<mapsto>
          (dict_get cfg (str (guild_id i)) \<lparr>mod_role_id = None, admin_role_id = None\<rparr>)
            \<lparr>mod_role_id := Some (role_id r)\<rparr>)) w))"
  using assms
  by (auto simp: setmodrole_def setdefault_def Let_def dict_get_def split: option.splits)

lemma setmodrole_once:
  assumes "load_config w = Inr cfg"
  shows "fst (setmodrole w i r) = Completed"
    and "\<exists>cfg'. load_config (snd (setmodrole w i r)) = Inr cfg'"
    and "get_mod_role_id (snd (setmodrole w i r)) (guild_id i) = Inr (Some (role_id r))"
    and "get_admin_role_id (snd (setmodrole w i r)) (guild_id i) = get_admin_role_id w (guild_id i)"
  using assms
  by (simp_all add: setmodrole_doc get_mod_role_id_def get_admin_role_id_def dict_get_def
      split: option.splits)

text \<open>
  C4. With a config document that can be read: after \<open>setmodrole\<close> for a guild and a role,
  \<open>get_mod_role_id\<close> for that guild returns the role's id; a second \<open>setmodrole\<close> for the
  same guild replaces it with the second role's id; and \<open>get_admin_role_id\<close> for the
  guild returns after each call what it returned before the first.
\<close>

theorem setmodrole_get:
  assumes "load_config w = Inr cfg" and "guild_id i' = guild_id i"
  shows "fst (setmodrole w i r) = Completed
     \<and> get_mod_role_id (snd (setmodrole w i r)) (guild_id i) = Inr (Some (role_id r))
     \<and> get_admin_role_id (snd (setmodrole w i r)) (guild_id i) = get_admin_role_id w (guild_id i)
     \<and> fst (setmodrole (snd (setmodrole w i r)) i' r') = Completed
     \<and> get_mod_role_id (snd (setmodrole (snd (setmodrole w i r)) i' r')) (guild_id i)
         = Inr (Some (role_id r'))
     \<and> get_admin_role_id (snd (setmodrole (snd (setmodrole w i r)) i' r')) (guild_id i)
         = get_admin_role_id w (guild_id i)"
proof -
  let ?w1 = "snd (setmodrole w i r)"
  from setmodrole_once(2) [OF assms(1), of i r]
  obtain cfg' where c': "load_config ?w1 = Inr cfg'" by blast
  from setmodrole_once [OF c', of i' r'] setmodrole_once [OF assms(1), of i r] assms(2)
  show ?thesis by simp
qed

theorem setmodrole_get_witness:
  "get_mod_role_id (snd (setmodrole ex_world (ex_call ex_admin) ex_low_role)) 100
     = Inr (Some 33)
   \<and> get_admin_role_id (snd (setmodrole ex_world (ex_call ex_admin) ex_low_role)) 100
     = Inr (Some 22)
   \<and> get_mod_role_id
       (snd (setmodrole (snd (setmodrole ex_world (ex_call ex_admin) ex_low_role))
              (ex_call ex_admin) ex_high_role)) 100
     = Inr (Some 44)
   \<and> get_admin_role_id
       (snd (setmodrole (snd (setmodrole ex_world (ex_call ex_admin) ex_low_role))
              (ex_call ex_admin) ex_high_role)) 100
     = Inr (Some 22)"
proof -
  have h: "load_config ex_world = Inr ex_config"
    by (simp add: load_config_def ex_world_def)
  have g: "guild_id (ex_call ex_admin) = guild_id (ex_call ex_admin)"
    by simp
  have a: "get_admin_role_id ex_world 100 = Inr (Some 22)"
    by (simp add: get_admin_role_id_def load_config_def ex_world_def ex_config_def)
  from setmodrole_get [OF h g, of ex_low_role ex_high_role] a show ?thesis
    by (simp add: ex_call_def ex_low_role_def ex_high_role_def)
qed

section \<open>The warning ledger\<close>

lemma clearwarnings_doc:
  assumes "load_warnings w = Inr d"
  shows "clearwarnings w i m =
    (Completed, log i (WarningsCleared (member_id m) (member_id (user i)))
       (respond False (WarningsCleared (member_id m) (member_id (user i)))
         (save_warnings (cleared d (str (guild_id i)) (str (member_id m))) w)))"
  using assms by (simp add: clearwarnings_def Let_def cleared_def)

lemma cleared_idem: "cleared (cleared d g u) g u = cleared d g u"
  by (auto simp: cleared_def split: option.splits)

lemma warns_of_cleared: "warns_of (cleared d g u) g u = []"
  by (auto simp: cleared_def warns_of_def dict_get_def split: option.splits)

text \<open>
  C5. With a warnings document that can be read, whatever it holds for the pair (no
  entry, an empty list, a list of records): \<open>clearwarnings\<close> completes, the document it
  leaves has the empty list for the pair, and \<open>warnings\<close> answers that the member has no
  warnings. A second \<open>clearwarnings\<close> for the pair completes as well and leaves both
  files as the first call left them.
\<close>

theorem clearwarnings_empty_idempotent:
  assumes "load_warnings w = Inr d"
      and "guild_id i' = guild_id i"
  shows "fst (clearwarnings w i m) = Completed
    \<and> (\<exists>d1. load_warnings (snd (clearwarnings w i m)) = Inr d1
          \<and> warns_of d1 (str (guild_id i)) (str (member_id m)) = [])
    \<and> snd (warnings (snd (clearwarnings w i m)) i' m)
        = respond True (NoWarnings (member_id m)) (snd (clearwarnings w i m))
    \<and> fst (clearwarnings (snd (clearwarnings w i m)) i' m) = Completed
    \<and> warn_file (snd (clearwarnings (snd (clearwarnings w i m)) i' m))
        = warn_file (snd (clearwarnings w i m))
    \<and> config_file (snd (clearwarnings (snd (clearwarnings w i m)) i' m)) = config_file w"
proof -
  let ?g = "str (guild_id i)" and ?u = "str (member_id m)"
  let ?w1 = "snd (clearwarnings w i m)"
  have w1: "warn_file ?w1 = Document (cleared d ?g ?u)" "config_file ?w1 = config_file w"
    "fst (clearwarnings w i m) = Completed"
    by (simp_all add: clearwarnings_doc [OF assms(1)])
  then have l1: "load_warnings ?w1 = Inr (cleared d ?g ?u)" by simp
  have w2: "warn_file (snd (clearwarnings ?w1 i' m)) = Document (cleared (cleared d ?g ?u) ?g ?u)"
    "config_file (snd (clearwarnings ?w1 i' m)) = config_file w"
    "fst (clearwarnings ?w1 i' m) = Completed"
    by (simp_all add: clearwarnings_doc [OF l1] assms(2) w1(2))
  have ls: "snd (warnings ?w1 i' m) = respond True (NoWarnings (member_id m)) ?w1"
    by (simp add: warnings_def l1 assms(2) warns_of_cleared)
  show ?thesis
    using w1 w2 l1 ls by (simp add: cleared_idem warns_of_cleared)
qed

theorem clearwarnings_empty_idempotent_witness:
  "fst (clearwarnings (ex_world\<lparr>warn_file := Document ex_ledger\<rparr>) (ex_call ex_admin) ex_junior)
     = Completed
   \<and> snd (warnings
        (snd (clearwarnings (ex_world\<lparr>warn_file := Document ex_ledger\<rparr>) (ex_call ex_admin)
               ex_junior))
        (ex_call ex_moderator) ex_junior)
     = respond True (NoWarnings 55)
        (snd (clearwarnings (ex_world\<lparr>warn_file := Document ex_ledger\<rparr>) (ex_call ex_admin)
               ex_junior))
   \<and> warn_file
       (snd (clearwarnings
          (snd (clearwarnings (ex_world\<lparr>warn_file := Document ex_ledger\<rparr>) (ex_call ex_admin)
                 ex_junior))
          (ex_call ex_moderator) ex_junior))
     = warn_file
        (snd (clearwarnings (ex_world\<lparr>warn_file := Document ex_ledger\<rparr>) (ex_call ex_admin)
               ex_junior))"
proof -
  have h: "load_warnings (ex_world\<lparr>warn_file := Document ex_ledger\<rparr>) = Inr ex_ledger"
    by simp
  have g: "guild_id (ex_call ex_moderator) = guild_id (ex_call ex_admin)"
    by (simp add: ex_call_def)
  from clearwarnings_empty_idempotent [OF h g, of ex_junior] show ?thesis
    by (simp add: ex_junior_def)
qed

lemma warn_doc_after:
  assumes "load_warnings w = Inr d"
  shows "warn_file (snd (warn w i m why)) =
     Document (d(str (guild_id i) \<mapsto>
        (dict_get d (str (guild_id i)) Map.empty)(str (member_id m) \<mapsto>
           warns_of d (str (guild_id i)) (str (member_id m))
             @ [\<lparr>reason = why, moderator = member_name (user i), timestamp = utcnow i\<rparr>])))"
    and "config_file (snd (warn w i m why)) = config_file w"
    and "fst (warn w i m why) = Completed"
  using assms
  by (auto simp: warn_def setdefault_def Let_def warns_of_def dict_get_def
      split: option.splits prod.splits)

text \<open>
  C9. With a warnings document that can be read, \<open>warn\<close> leaves a document in which the
  list of the pair is the old list with the one new record at its end, every other guild
  has the entry it had, every other user of the same guild has the entry it had, and
  the config file is as it was.
\<close>

theorem warn_frame:
  assumes "load_warnings w = Inr d"
  shows "\<exists>d'. warn_file (snd (warn w i m why)) = Document d'
     \<and> warns_of d' (str (guild_id i)) (str (member_id m))
         = warns_of d (str (guild_id i)) (str (member_id m))
           @ [\<lparr>reason = why, moderator = member_name (user i), timestamp = utcnow i\<rparr>]
     \<and> (\<forall>g. g \<noteq> str (guild_id i) \<longrightarrow> d' g = d g)
     \<and> (\<forall>u. u \<noteq> str (member_id m) \<longrightarrow>
           dict_get d' (str (guild_id i)) Map.empty u = dict_get d (str (guild_id i)) Map.empty u)
     \<and> (\<forall>g u. (g, u) \<noteq> (str (guild_id i), str (member_id m)) \<longrightarrow>
           warns_of d' g u = warns_of d g u)
     \<and> config_file (snd (warn w i m why)) = config_file w"
  using warn_doc_after [OF assms, of i m why]
  by (auto simp: warns_of_def dict_get_def)


theorem warn_frame_witness:
  "\<exists>d'. warn_file (snd (warn (ex_world\<lparr>warn_file := Document ex_ledger\<rparr>)
                 (ex_call ex_moderator) ex_junior ''spam'')) = Document d'
     \<and> warns_of d' ''100'' ''55''
         = [ex_warning,
            \<lparr>reason = ''spam'', moderator = ''mod#1'', timestamp = ''2024-05-01T10:00:00''\<rparr>]
     \<and> warns_of d' ''100'' ''3'' = [ex_warning, ex_warning]
     \<and> config_file (snd (warn (ex_world\<lparr>warn_file := Document ex_ledger\<rparr>)
                 (ex_call ex_moderator) ex_junior ''spam'')) = Document ex_config"
proof -
  have h: "load_warnings (ex_world\<lparr>warn_file := Document ex_ledger\<rparr>) = Inr ex_ledger"
    by simp
  from warn_frame [OF h, of "ex_call ex_moderator" ex_junior "''spam''"]
  obtain d' where d':
    "warn_file (snd (warn (ex_world\<lparr>warn_file := Document ex_ledger\<rparr>)
                 (ex_call ex_moderator) ex_junior ''spam'')) = Document d'"
    "warns_of d' ''100'' ''55''
       = warns_of ex_ledger ''100'' ''55''
         @ [\<lparr>reason = ''spam'', moderator = ''mod#1'', timestamp = ''2024-05-01T10:00:00''\<rparr>]"
    "\<forall>g u. (g, u) \<noteq> (''100'', ''55'') \<longrightarrow> warns_of d' g u = warns_of ex_ledger g u"
    "config_file (snd (warn (ex_world\<lparr>warn_file := Document ex_ledger\<rparr>)
                 (ex_call ex_moderator) ex_junior ''spam'')) = Document ex_config"
    by (auto simp: ex_call_def ex_junior_def ex_moderator_def ex_world_def)
  from d'(3) have "warns_of d' ''100'' ''3'' = warns_of ex_ledger ''100'' ''3''"
    by simp
  with d' show ?thesis
    by (simp add: warns_of_def dict_get_def ex_ledger_def)
qed

lemma warn_trace:
  assumes "load_warnings w = Inr d"
  shows "trace (snd (warn w i m why)) =
     trace w
     @ (case dm m of
          Delivered \<Rightarrow> [DirectMessage (member_id m)
             (YouWereWarned (guild_name i) why (member_name (user i))
                (Suc (length (warns_of d (str (guild_id i)) (str (member_id m))))))]
        | Forbidden \<Rightarrow> [])
     @ [Respond False (MemberWarned (member_id m) why
           (Suc (length (warns_of d (str (guild_id i)) (str (member_id m))))) (member_id (user i)))]
     @ log_events w i (MemberWarned (member_id m) why
           (Suc (length (warns_of d (str (guild_id i)) (str (member_id m))))) (member_id (user i)))"
  using assms
  by (auto simp: warn_def setdefault_def Let_def warns_of_def dict_get_def send_dm_trace
      split: option.splits prod.splits send_result.splits)

lemma warn_counts_append [simp]: "warn_counts (xs @ ys) = warn_counts xs @ warn_counts ys"
  by (simp add: warn_counts_def map_filter_def)

lemma warn_counts_simps [simp]:
  "warn_counts [] = []"
  "warn_counts (DirectMessage u msg # tr) = warn_counts tr"
  "warn_counts (Respond b (MemberWarned u why n md) # tr) = n # warn_counts tr"
  "warn_counts (log_events w i emb) = []"
  by (simp_all add: warn_counts_def map_filter_def log_events_def split: option.splits)

lemma warn_counts_step:
  assumes "load_warnings w = Inr d"
  shows "warn_counts (trace (snd (warn w i m why))) =
     warn_counts (trace w) @ [Suc (length (warns_of d (str (guild_id i)) (str (member_id m))))]"
  by (simp add: warn_trace [OF assms] split: send_result.splits)

lemma warn_all_general:
  assumes "\<forall>c\<in>set cs. guild_id (fst c) = g \<and> member_id (fst (snd c)) = u"
      and "load_warnings w = Inr d"
  shows "\<exists>d'. load_warnings (snd (warn_all w cs)) = Inr d'
     \<and> warns_of d' (str g) (str u) = warns_of d (str g) (str u) @ map entry_of cs
     \<and> fst (warn_all w cs) = replicate (length cs) Completed
     \<and> warn_counts (trace (snd (warn_all w cs))) =
         warn_counts (trace w)
         @ [Suc (length (warns_of d (str g) (str u)))
              ..< Suc (length (warns_of d (str g) (str u)) + length cs)]"
  using assms
proof (induction cs arbitrary: w d)
  case Nil
  then show ?case by simp
next
  case (Cons c cs)
  obtain i m why where c: "c = (i, m, why)" by (cases c)
  from Cons.prems(1) c have gu: "guild_id i = g" "member_id m = u" by simp_all
  let ?w1 = "snd (warn w i m why)"
  let ?e = "\<lparr>reason = why, moderator = member_name (user i), timestamp = utcnow i\<rparr>"
  from warn_doc_after [OF Cons.prems(2), of i m why]
  obtain d1 where d1: "load_warnings ?w1 = Inr d1"
    and l1: "warns_of d1 (str g) (str u) = warns_of d (str g) (str u) @ [?e]"
    and r1: "fst (warn w i m why) = Completed"
    by (auto simp: gu warns_of_def dict_get_def)
  from Cons.prems(1) have rest: "\<forall>c\<in>set cs. guild_id (fst c) = g \<and> member_id (fst (snd c)) = u"
    by simp
  from Cons.IH [OF rest d1] obtain d' where
    IH: "load_warnings (snd (warn_all ?w1 cs)) = Inr d'"
      "warns_of d' (str g) (str u) = warns_of d1 (str g) (str u) @ map entry_of cs"
      "fst (warn_all ?w1 cs) = replicate (length cs) Completed"
      "warn_counts (trace (snd (warn_all ?w1 cs))) =
         warn_counts (trace ?w1)
         @ [Suc (length (warns_of d1 (str g) (str u)))
              ..< Suc (length (warns_of d1 (str g) (str u)) + length cs)]"
    by blast
  have step: "warn_counts (trace ?w1) = warn_counts (trace w) @ [Suc (length (warns_of d (str g) (str u)))]"
    using warn_counts_step [OF Cons.prems(2), of i m why] by (simp add: gu)
  have unfold: "warn_all w (c # cs) = (fst (warn w i m why) # fst (warn_all ?w1 cs), snd (warn_all ?w1 cs))"
    by (simp add: c split: prod.splits)
  let ?n = "length (warns_of d (str g) (str u))"
  have len: "Suc (?n + length (c # cs)) = Suc (Suc ?n + length cs)"
    by simp
  have upt: "[Suc ?n ..< Suc (Suc ?n + length cs)]
      = Suc ?n # [Suc (Suc ?n) ..< Suc (Suc ?n + length cs)]"
    by (rule upt_conv_Cons) simp
  have a: "warns_of d' (str g) (str u) = warns_of d (str g) (str u) @ map entry_of (c # cs)"
    using IH(2) l1 by (simp add: c entry_of_def)
  have b: "fst (warn_all w (c # cs)) = replicate (length (c # cs)) Completed"
    using IH(3) r1 by (simp add: unfold)
  have "warn_counts (trace (snd (warn_all w (c # cs)))) =
      (warn_counts (trace w) @ [Suc ?n]) @ [Suc (Suc ?n) ..< Suc (Suc ?n + length cs)]"
    using IH(4) step l1 by (simp add: unfold)
  also have "\<dots> = warn_counts (trace w) @ [Suc ?n ..< Suc (?n + length (c # cs))]"
    unfolding len upt by simp
  finally have cnt: "warn_counts (trace (snd (warn_all w (c # cs)))) =
      warn_counts (trace w) @ [Suc ?n ..< Suc (?n + length (c # cs))]" .
  have "load_warnings (snd (warn_all w (c # cs))) = Inr d'"
    using IH(1) by (simp add: unfold)
  with a b cnt show ?case by blast
qed

text \<open>
  C2. From a warnings document that can be read and holds no record for the pair, a run
  of N \<open>warn\<close> calls for the pair, in whatever interactions and with whatever reasons,
  completes each call and leaves a document whose list for the pair has exactly N
  records, the records of the calls in call order (so the reasons are the reasons of the
  calls in call order); the counts the calls report in their answers are 1, 2, ..., N in
  this order, so the Nth call reports N.
\<close>

theorem warn_sequence:
  assumes "load_warnings w = Inr d"
      and "warns_of d (str g) (str u) = []"
      and "\<forall>c\<in>set cs. guild_id (fst c) = g \<and> member_id (fst (snd c)) = u"
  shows "\<exists>d'. load_warnings (snd (warn_all w cs)) = Inr d'
     \<and> length (warns_of d' (str g) (str u)) = length cs
     \<and> map reason (warns_of d' (str g) (str u)) = map (\<lambda>c. snd (snd c)) cs
     \<and> warns_of d' (str g) (str u) = map entry_of cs
     \<and> fst (warn_all w cs) = replicate (length cs) Completed
     \<and> warn_counts (trace (snd (warn_all w cs))) =
         warn_counts (trace w) @ [1 ..< Suc (length cs)]"
proof -
  from warn_all_general [OF assms(3) assms(1)] obtain d' where
    d': "load_warnings (snd (warn_all w cs)) = Inr d'"
      "warns_of d' (str g) (str u) = warns_of d (str g) (str u) @ map entry_of cs"
      "fst (warn_all w cs) = replicate (length cs) Completed"
      "warn_counts (trace (snd (warn_all w cs))) =
         warn_counts (trace w)
         @ [Suc (length (warns_of d (str g) (str u)))
              ..< Suc (length (warns_of d (str g) (str u)) + length cs)]"
    by blast
  have "map reason (map entry_of cs) = map (\<lambda>c. snd (snd c)) cs"
    by (simp add: entry_of_def split: prod.splits)
  with d' assms(2) show ?thesis by simp
qed


theorem warn_sequence_witness:
  "\<exists>d'. load_warnings (snd (warn_all ex_world ex_calls)) = Inr d'
     \<and> length (warns_of d' ''100'' ''55'') = 3
     \<and> map reason (warns_of d' ''100'' ''55'') = [''spam'', ''flood'', ''caps'']
     \<and> warn_counts (trace (snd (warn_all ex_world ex_calls))) = [1, 2, 3]"
proof -
  have h1: "load_warnings ex_world = Inr Map.empty"
    by (simp add: load_warnings_def ex_world_def)
  have h2: "warns_of Map.empty (str 100) (str 55) = []"
    by (simp add: warns_of_def dict_get_def)
  have h3: "\<forall>c\<in>set ex_calls. guild_id (fst c) = 100 \<and> member_id (fst (snd c)) = 55"
    by (simp add: ex_calls_def ex_call_def ex_junior_def)
  have t: "trace ex_world = []"
    by (simp add: ex_world_def)
  have n: "length ex_calls = 3" "map (\<lambda>c. snd (snd c)) ex_calls = [''spam'', ''flood'', ''caps'']"
    by (simp_all add: ex_calls_def)
  have u: "[1 ..< Suc 3] = [1, 2, 3::nat]"
    by (simp add: upt_rec)
  from warn_sequence [OF h1 h2 h3] obtain d' where
    d': "load_warnings (snd (warn_all ex_world ex_calls)) = Inr d'"
      "length (warns_of d' (str 100) (str 55)) = length ex_calls"
      "map reason (warns_of d' (str 100) (str 55)) = map (\<lambda>c. snd (snd c)) ex_calls"
      "warn_counts (trace (snd (warn_all ex_world ex_calls))) =
         warn_counts (trace ex_world) @ [1 ..< Suc (length ex_calls)]"
    by blast
  from d'(4) have c: "warn_counts (trace (snd (warn_all ex_world ex_calls))) = [1, 2, 3]"
    unfolding n t u by simp
  from d'(1-3) c show ?thesis
    unfolding n by auto
qed

section \<open>Checks, hierarchy and notifications\<close>

lemma is_mod_cases:
  "(fst (is_mod w i) = Inr True \<and> snd (is_mod w i) = w)
   \<or> (fst (is_mod w i) = Inr False \<and> snd (is_mod w i) = respond True NeedModOrAdmin w)
   \<or> (\<exists>e. fst (is_mod w i) = Inl e \<and> snd (is_mod w i) = w)"
  by (auto simp: is_mod_def Let_def split: sum.splits)

lemma is_admin_cases:
  "(fst (is_admin w i) = Inr True \<and> snd (is_admin w i) = w)
   \<or> (fst (is_admin w i) = Inr False \<and> snd (is_admin w i) = respond True NeedAdmin w)
   \<or> (\<exists>e. fst (is_admin w i) = Inl e \<and> snd (is_admin w i) = w)"
  by (auto simp: is_admin_def split: sum.splits)

lemma check_cases:
  "(fst (check c w i) = Inr True \<and> snd (check c w i) = w)
   \<or> (\<exists>msg. fst (check c w i) = Inr False \<and> snd (check c w i) = respond True msg w)
   \<or> (\<exists>e. fst (check c w i) = Inl e \<and> snd (check c w i) = w)"
  using is_mod_cases [of w i] is_admin_cases [of w i]
  by (cases "admin_only c") (auto simp: check_def)

lemma invoke_passed:
  "fst (check c w i) = Inr True \<Longrightarrow> invoke w i c = handler c w i"
  using check_cases [of c w i] by (auto simp: invoke_def split: prod.splits)

lemma invoke_denied:
  "fst (check c w i) = Inr False \<Longrightarrow>
   \<exists>msg. invoke w i c = (Raised CheckFailure, respond True msg w)"
  using check_cases [of c w i] by (auto simp: invoke_def split: prod.splits)

lemma invoke_raised:
  "fst (check c w i) = Inl e \<Longrightarrow> invoke w i c = (Raised e, w)"
  using check_cases [of c w i] by (auto simp: invoke_def split: prod.splits)

lemma handler_rejected:
  "hierarchy_rejects i c \<Longrightarrow> \<exists>msg. handler c w i = (Completed, respond True msg w)"
  by (cases c) (auto simp: ban_def kick_def timeout_cmd_def role_cmd_def)

text \<open>
  C7. For every gated command: when its permission check returns false, the invocation
  ends with \<open>CheckFailure\<close>, the handler is not run, and the state differs from the
  state before only by the one ephemeral answer of the check; when the check passes and
  the handler's hierarchy check rejects, the invocation returns after the one ephemeral
  answer. In both cases the config file and the warnings file are as they were and the
  trace has no new privileged platform call.
\<close>

theorem denied_or_rejected_changes_nothing:
  "(fst (check c w i) = Inr False \<longrightarrow>
      fst (invoke w i c) = Raised CheckFailure
    \<and> config_file (snd (invoke w i c)) = config_file w
    \<and> warn_file (snd (invoke w i c)) = warn_file w
    \<and> (\<exists>msg. trace (snd (invoke w i c)) = trace w @ [Respond True msg])
    \<and> filter privileged (trace (snd (invoke w i c))) = filter privileged (trace w))
   \<and> (fst (check c w i) = Inr True \<and> hierarchy_rejects i c \<longrightarrow>
      fst (invoke w i c) = Completed
    \<and> config_file (snd (invoke w i c)) = config_file w
    \<and> warn_file (snd (invoke w i c)) = warn_file w
    \<and> (\<exists>msg. trace (snd (invoke w i c)) = trace w @ [Respond True msg])
    \<and> filter privileged (trace (snd (invoke w i c))) = filter privileged (trace w))"
proof (intro conjI impI)
  assume "fst (check c w i) = Inr False"
  from invoke_denied [OF this] obtain msg where
    inv: "invoke w i c = (Raised CheckFailure, respond True msg w)" by blast
  show "fst (invoke w i c) = Raised CheckFailure"
    "config_file (snd (invoke w i c)) = config_file w"
    "warn_file (snd (invoke w i c)) = warn_file w"
    "\<exists>msg. trace (snd (invoke w i c)) = trace w @ [Respond True msg]"
    "filter privileged (trace (snd (invoke w i c))) = filter privileged (trace w)"
    by (simp_all add: inv)
next
  assume a: "fst (check c w i) = Inr True \<and> hierarchy_rejects i c"
  from a handler_rejected [of i c w] obtain msg where
    "handler c w i = (Completed, respond True msg w)" by blast
  with a have inv: "invoke w i c = (Completed, respond True msg w)"
    by (simp add: invoke_passed)
  show "fst (invoke w i c) = Completed"
    "config_file (snd (invoke w i c)) = config_file w"
    "warn_file (snd (invoke w i c)) = warn_file w"
    "\<exists>msg. trace (snd (invoke w i c)) = trace w @ [Respond True msg]"
    "filter privileged (trace (snd (invoke w i c))) = filter privileged (trace w)"
    by (simp_all add: inv)
qed

theorem denied_or_rejected_changes_nothing_witness:
  "fst (invoke ex_world (ex_call ex_moderator) (Ban ex_junior ''spam'' 0)) = Raised CheckFailure
   \<and> config_file (snd (invoke ex_world (ex_call ex_moderator) (Ban ex_junior ''spam'' 0)))
       = Document ex_config
   \<and> warn_file (snd (invoke ex_world (ex_call ex_moderator) (Ban ex_junior ''spam'' 0))) = Missing
   \<and> filter privileged (trace (snd (invoke ex_world (ex_call ex_moderator)
         (Ban ex_junior ''spam'' 0)))) = []
   \<and> fst (invoke ex_world (ex_call ex_admin) (Ban ex_senior ''spam'' 0)) = Completed
   \<and> config_file (snd (invoke ex_world (ex_call ex_admin) (Ban ex_senior ''spam'' 0)))
       = Document ex_config
   \<and> warn_file (snd (invoke ex_world (ex_call ex_admin) (Ban ex_senior ''spam'' 0))) = Missing
   \<and> filter privileged (trace (snd (invoke ex_world (ex_call ex_admin)
         (Ban ex_senior ''spam'' 0)))) = []"
proof -
  have deny: "fst (check (Ban ex_junior ''spam'' 0) ex_world (ex_call ex_moderator)) = Inr False"
    by (simp add: check_def is_admin_def get_admin_role_id_def load_config_def ex_defs)
  have pass: "fst (check (Ban ex_senior ''spam'' 0) ex_world (ex_call ex_admin)) = Inr True
      \<and> hierarchy_rejects (ex_call ex_admin) (Ban ex_senior ''spam'' 0)"
    by (simp add: check_def is_admin_def get_admin_role_id_def load_config_def role_ge_def ex_defs)
  have w: "config_file ex_world = Document ex_config" "warn_file ex_world = Missing"
    "trace ex_world = []"
    by (simp_all add: ex_world_def)
  from denied_or_rejected_changes_nothing
         [of "Ban ex_junior ''spam'' 0" ex_world "ex_call ex_moderator"]
       denied_or_rejected_changes_nothing
         [of "Ban ex_senior ''spam'' 0" ex_world "ex_call ex_admin"]
       deny pass
  show ?thesis
    by (simp add: w)
qed

text \<open>
  C10. \<open>untimeout\<close> has no hierarchy check: for every actor who passes \<open>is_mod\<close> and every
  target, whatever their top roles, the invocation removes the target's timeout (the
  platform call with no deadline), answers and reports to the log.
\<close>

theorem untimeout_no_hierarchy_check:
  assumes "fst (is_mod w i) = Inr True"
  shows "fst (invoke w i (Untimeout m why)) = Completed
    \<and> trace (snd (invoke w i (Untimeout m why))) =
        trace w
        @ [TimeoutMember (member_id m) None (member_name (user i)) why,
           Respond False (TimeoutRemoved (member_id m) why (member_id (user i)))]
        @ log_events w i (TimeoutRemoved (member_id m) why (member_id (user i)))"
proof -
  from assms have "fst (check (Untimeout m why) w i) = Inr True"
    by (simp add: check_def)
  then have "invoke w i (Untimeout m why) = untimeout_cmd w i m why"
    by (simp add: invoke_passed)
  then show ?thesis
    by (simp add: untimeout_cmd_def Let_def)
qed

theorem untimeout_no_hierarchy_check_witness:
  "role_ge (top_role ex_senior) (top_role (user (ex_call ex_moderator)))
   \<and> fst (invoke ex_world (ex_call ex_moderator) (Untimeout ex_senior ''appeal'')) = Completed
   \<and> trace (snd (invoke ex_world (ex_call ex_moderator) (Untimeout ex_senior ''appeal'')))
       = [TimeoutMember 3 None ''mod#1'' ''appeal'',
          Respond False (TimeoutRemoved 3 ''appeal'' 1),
          ChannelSend 900 (TimeoutRemoved 3 ''appeal'' 1)]"
proof -
  have h: "fst (is_mod ex_world (ex_call ex_moderator)) = Inr True"
    by (simp add: is_mod_def get_admin_role_id_def get_mod_role_id_def load_config_def Let_def
        ex_defs)
  from untimeout_no_hierarchy_check [OF h, of ex_senior "''appeal''"] show ?thesis
    by (simp add: log_events_def role_ge_def ex_defs)
qed

text \<open>
  C8. When the affected member accepts no direct messages (\<open>member.send\<close> raises
  \<open>Forbidden\<close>), \<open>ban\<close> and \<open>kick\<close> of a member below the actor still complete, make the
  ban or kick call, answer and hand the embed to \<open>log\<close>; \<open>warn\<close>, with a warnings document
  that can be read, still completes, has written the new record to the ledger, answers
  with the count and hands the embed to \<open>log\<close>. \<open>log\<close> sends the embed to the log channel
  whenever one is configured and the guild has it.
\<close>

theorem forbidden_dm_ignored:
  assumes "dm m = Forbidden"
  shows
   "(\<not> role_ge (top_role m) (top_role (user i)) \<longrightarrow>
       fst (ban w i m why days) = Completed
     \<and> trace (snd (ban w i m why days)) =
         trace w
         @ [BanMember (member_id m) (member_name (user i)) why days,
            Respond False (MemberBanned (member_id m) why (member_id (user i)))]
         @ log_events w i (MemberBanned (member_id m) why (member_id (user i)))
     \<and> fst (kick w i m why) = Completed
     \<and> trace (snd (kick w i m why)) =
         trace w
         @ [KickMember (member_id m) (member_name (user i)) why,
            Respond False (MemberKicked (member_id m) why (member_id (user i)))]
         @ log_events w i (MemberKicked (member_id m) why (member_id (user i))))
    \<and> (load_warnings w = Inr d \<longrightarrow>
       fst (warn w i m why) = Completed
     \<and> (\<exists>d'. warn_file (snd (warn w i m why)) = Document d'
           \<and> warns_of d' (str (guild_id i)) (str (member_id m)) =
               warns_of d (str (guild_id i)) (str (member_id m)) @ [entry_of (i, m, why)])
     \<and> trace (snd (warn w i m why)) =
         trace w
         @ [Respond False (MemberWarned (member_id m) why
              (Suc (length (warns_of d (str (guild_id i)) (str (member_id m)))))
              (member_id (user i)))]
         @ log_events w i (MemberWarned (member_id m) why
              (Suc (length (warns_of d (str (guild_id i)) (str (member_id m)))))
              (member_id (user i))))
    \<and> (LOG_CHANNEL_ID w = Some ch \<and> ch \<noteq> 0 \<and> ch \<in> set (guild_channels i) \<longrightarrow>
         log_events w i emb = [ChannelSend ch emb])"
proof (intro conjI impI)
  assume "\<not> role_ge (top_role m) (top_role (user i))"
  then show "fst (ban w i m why days) = Completed"
    "trace (snd (ban w i m why days)) =
         trace w
         @ [BanMember (member_id m) (member_name (user i)) why days,
            Respond False (MemberBanned (member_id m) why (member_id (user i)))]
         @ log_events w i (MemberBanned (member_id m) why (member_id (user i)))"
    "fst (kick w i m why) = Completed"
    "trace (snd (kick w i m why)) =
         trace w
         @ [KickMember (member_id m) (member_name (user i)) why,
            Respond False (MemberKicked (member_id m) why (member_id (user i)))]
         @ log_events w i (MemberKicked (member_id m) why (member_id (user i)))"
    using assms by (simp_all add: ban_def kick_def Let_def send_dm_trace)
next
  assume l: "load_warnings w = Inr d"
  show "fst (warn w i m why) = Completed"
    by (rule warn_doc_after(3) [OF l])
  show "\<exists>d'. warn_file (snd (warn w i m why)) = Document d'
           \<and> warns_of d' (str (guild_id i)) (str (member_id m)) =
               warns_of d (str (guild_id i)) (str (member_id m)) @ [entry_of (i, m, why)]"
    using warn_doc_after(1) [OF l, of i m why]
    by (simp add: entry_of_def warns_of_def dict_get_def)
  show "trace (snd (warn w i m why)) =
         trace w
         @ [Respond False (MemberWarned (member_id m) why
              (Suc (length (warns_of d (str (guild_id i)) (str (member_id m)))))
              (member_id (user i)))]
         @ log_events w i (MemberWarned (member_id m) why
              (Suc (length (warns_of d (str (guild_id i)) (str (member_id m)))))
              (member_id (user i)))"
    using warn_trace [OF l, of i m why] assms by simp
next
  assume "LOG_CHANNEL_ID w = Some ch \<and> ch \<noteq> 0 \<and> ch \<in> set (guild_channels i)"
  then show "log_events w i emb = [ChannelSend ch emb]"
    by (simp add: log_events_def)
qed

theorem forbidden_dm_ignored_witness:
  "trace (snd (ban ex_world (ex_call ex_admin) ex_junior ''spam'' 0))
     = [BanMember 55 ''adm#2'' ''spam'' 0,
        Respond False (MemberBanned 55 ''spam'' 2),
        ChannelSend 900 (MemberBanned 55 ''spam'' 2)]
   \<and> trace (snd (kick ex_world (ex_call ex_admin) ex_junior ''spam''))
     = [KickMember 55 ''adm#2'' ''spam'',
        Respond False (MemberKicked 55 ''spam'' 2),
        ChannelSend 900 (MemberKicked 55 ''spam'' 2)]
   \<and> fst (warn ex_world (ex_call ex_admin) ex_junior ''spam'') = Completed
   \<and> trace (snd (warn ex_world (ex_call ex_admin) ex_junior ''spam''))
     = [Respond False (MemberWarned 55 ''spam'' 1 2),
        ChannelSend 900 (MemberWarned 55 ''spam'' 1 2)]"
proof -
  have h: "dm ex_junior = Forbidden"
    by (simp add: ex_junior_def)
  have lt: "\<not> role_ge (top_role ex_junior) (top_role (user (ex_call ex_admin)))"
    by (simp add: role_ge_def ex_defs)
  have l: "load_warnings ex_world = Inr Map.empty"
    by (simp add: load_warnings_def ex_world_def)
  have ch: "LOG_CHANNEL_ID ex_world = Some 900 \<and> (900::int) \<noteq> 0
      \<and> 900 \<in> set (guild_channels (ex_call ex_admin))"
    by (simp add: ex_world_def ex_call_def)
  have ids: "member_id ex_junior = 55" "member_name (user (ex_call ex_admin)) = ''adm#2''"
    "member_id (user (ex_call ex_admin)) = 2" "guild_id (ex_call ex_admin) = 100"
    "trace ex_world = []"
    by (simp_all add: ex_defs)
  have e: "warns_of Map.empty ''100'' ''55'' = []"
    by (simp add: warns_of_def dict_get_def)
  from forbidden_dm_ignored [OF h, where i = "ex_call ex_admin" and w = ex_world
      and why = "''spam''" and days = 0 and d = Map.empty and ch = 900]
    lt l ch
  show ?thesis
    by (simp add: ids e)
qed


lemma invoke_rejected_privileged:
  assumes "hierarchy_rejects i c"
  shows "filter privileged (trace (snd (invoke w i c))) = filter privileged (trace w)"
proof -
  from check_cases [of c w i] consider
    (pass) "fst (check c w i) = Inr True"
    | (deny) "fst (check c w i) = Inr False"
    | (err) e where "fst (check c w i) = Inl e"
    by blast
  then show ?thesis
  proof cases
    case pass
    from handler_rejected [OF assms, of w] obtain msg where
      "handler c w i = (Completed, respond True msg w)" by blast
    with pass show ?thesis by (simp add: invoke_passed)
  next
    case deny
    from invoke_denied [OF this] show ?thesis by auto
  next
    case err
    from invoke_raised [OF this] show ?thesis by simp
  qed
qed

text \<open>
  C3, as the code has it. For \<open>ban\<close>, \<open>kick\<close> and \<open>timeout\<close>: when the target's top role
  is greater than or equal to the actor's top role, no invocation by that actor makes a
  privileged platform call, and the handler answers with the rejection only; holding
  the administrator permission exempts no one. For \<open>role\<close> the comparison is between the
  role to add or remove and the actor's top role, not the target member's top role: a
  role greater than or equal to the actor's top role is rejected before any platform
  call unless the actor has the administrator permission, and an actor with that
  permission always gets the role added or removed.
\<close>

theorem hierarchy_protection:
  "(role_ge (top_role m) (top_role (user i)) \<longrightarrow>
      filter privileged (trace (snd (invoke w i (Ban m why d)))) = filter privileged (trace w)
    \<and> filter privileged (trace (snd (invoke w i (Kick m why)))) = filter privileged (trace w)
    \<and> filter privileged (trace (snd (invoke w i (Timeout m n why)))) = filter privileged (trace w)
    \<and> ban w i m why d = (Completed, respond True CannotBan w)
    \<and> kick w i m why = (Completed, respond True CannotKick w)
    \<and> timeout_cmd w i m n why = (Completed, respond True CannotTimeout w))
   \<and> (role_ge r (top_role (user i)) \<and> \<not> administrator (user i) \<longrightarrow>
      filter privileged (trace (snd (invoke w i (RoleCmd m r a)))) = filter privileged (trace w)
    \<and> role_cmd w i m r a = (Completed, respond True CannotAssignRole w))
   \<and> (administrator (user i) \<longrightarrow>
      fst (invoke w i (RoleCmd m r a)) = Completed
    \<and> trace (snd (invoke w i (RoleCmd m r a))) =
        trace w
        @ [if a = ''add'' then AddRoles (member_id m) (role_id r) (member_name (user i))
           else RemoveRoles (member_id m) (role_id r) (member_name (user i)),
           Respond False (RoleChanged (member_id m) (role_id r)
              (if a = ''add'' then ''Added'' else ''Removed'') (member_id (user i)))]
        @ log_events w i (RoleChanged (member_id m) (role_id r)
              (if a = ''add'' then ''Added'' else ''Removed'') (member_id (user i))))"
proof (intro conjI impI)
  assume ge: "role_ge (top_role m) (top_role (user i))"
  then show "filter privileged (trace (snd (invoke w i (Ban m why d)))) = filter privileged (trace w)"
    by (simp add: invoke_rejected_privileged)
  from ge show "filter privileged (trace (snd (invoke w i (Kick m why)))) = filter privileged (trace w)"
    by (simp add: invoke_rejected_privileged)
  from ge show "filter privileged (trace (snd (invoke w i (Timeout m n why)))) = filter privileged (trace w)"
    by (simp add: invoke_rejected_privileged)
  from ge show "ban w i m why d = (Completed, respond True CannotBan w)"
    by (simp add: ban_def)
  from ge show "kick w i m why = (Completed, respond True CannotKick w)"
    by (simp add: kick_def)
  from ge show "timeout_cmd w i m n why = (Completed, respond True CannotTimeout w)"
    by (simp add: timeout_cmd_def)
next
  assume r: "role_ge r (top_role (user i)) \<and> \<not> administrator (user i)"
  then show "filter privileged (trace (snd (invoke w i (RoleCmd m r a)))) = filter privileged (trace w)"
    by (simp add: invoke_rejected_privileged)
  from r show "role_cmd w i m r a = (Completed, respond True CannotAssignRole w)"
    by (simp add: role_cmd_def)
next
  assume ad: "administrator (user i)"
  then have "fst (check (RoleCmd m r a) w i) = Inr True"
    by (simp add: check_def is_admin_def)
  then have inv: "invoke w i (RoleCmd m r a) = role_cmd w i m r a"
    by (simp add: invoke_passed)
  from ad show "fst (invoke w i (RoleCmd m r a)) = Completed"
    by (simp add: inv role_cmd_def Let_def split: prod.splits)
  from ad show "trace (snd (invoke w i (RoleCmd m r a))) =
        trace w
        @ [if a = ''add'' then AddRoles (member_id m) (role_id r) (member_name (user i))
           else RemoveRoles (member_id m) (role_id r) (member_name (user i)),
           Respond False (RoleChanged (member_id m) (role_id r)
              (if a = ''add'' then ''Added'' else ''Removed'') (member_id (user i)))]
        @ log_events w i (RoleChanged (member_id m) (role_id r)
              (if a = ''add'' then ''Added'' else ''Removed'') (member_id (user i)))"
    by (simp add: inv role_cmd_def Let_def)
qed

theorem hierarchy_protection_witness:
  "filter privileged (trace (snd (invoke ex_world (ex_call ex_admin) (Ban ex_senior ''spam'' 0))))
     = []
   \<and> kick ex_world (ex_call ex_admin) ex_senior ''spam''
       = (Completed, respond True CannotKick ex_world)
   \<and> role_cmd ex_world (ex_call ex_admin) ex_junior ex_high_role ''add''
       = (Completed, respond True CannotAssignRole ex_world)
   \<and> trace (snd (invoke ex_world (ex_call ex_owner) (RoleCmd ex_junior ex_high_role ''add'')))
       = [AddRoles 55 44 ''own#9'',
          Respond False (RoleChanged 55 44 ''Added'' 9),
          ChannelSend 900 (RoleChanged 55 44 ''Added'' 9)]"
proof -
  have ge: "role_ge (top_role ex_senior) (top_role (user (ex_call ex_admin)))"
    by (simp add: role_ge_def ex_defs)
  have r: "role_ge ex_high_role (top_role (user (ex_call ex_admin)))
      \<and> \<not> administrator (user (ex_call ex_admin))"
    by (simp add: role_ge_def ex_defs)
  have a: "administrator (user (ex_call ex_owner))"
    by (simp add: ex_call_def ex_owner_def)
  have t: "trace ex_world = []"
    by (simp add: ex_world_def)
  from hierarchy_protection [where m = ex_senior and i = "ex_call ex_admin" and w = ex_world
      and why = "''spam''" and d = 0 and r = ex_high_role] ge
  have 1: "filter privileged (trace (snd (invoke ex_world (ex_call ex_admin)
        (Ban ex_senior ''spam'' 0)))) = []"
    "kick ex_world (ex_call ex_admin) ex_senior ''spam''
       = (Completed, respond True CannotKick ex_world)"
    by (simp_all add: t)
  from hierarchy_protection [where m = ex_junior and i = "ex_call ex_admin" and w = ex_world
      and r = ex_high_role and a = "''add''"] r
  have 2: "role_cmd ex_world (ex_call ex_admin) ex_junior ex_high_role ''add''
       = (Completed, respond True CannotAssignRole ex_world)"
    by simp
  from hierarchy_protection [where m = ex_junior and i = "ex_call ex_owner" and w = ex_world
      and r = ex_high_role and a = "''add''"] a
  have 3: "trace (snd (invoke ex_world (ex_call ex_owner) (RoleCmd ex_junior ex_high_role ''add'')))
       = [AddRoles 55 44 ''own#9'',
          Respond False (RoleChanged 55 44 ''Added'' 9),
          ChannelSend 900 (RoleChanged 55 44 ''Added'' 9)]"
    by (simp add: t log_events_def ex_defs ex_owner_def)
  from 1 2 3 show ?thesis by simp
qed


text \<open>The claim as worded fails for \<open>role\<close>: an actor without the administrator
  permission, admitted by the configured admin role, adds a low role to a member whose
  top role is above the actor's own.\<close>

theorem role_cmd_counterexample:
  "role_ge (top_role ex_senior) (top_role (user (ex_call ex_admin)))
   \<and> \<not> administrator (user (ex_call ex_admin))
   \<and> invoke ex_world (ex_call ex_admin) (RoleCmd ex_senior ex_low_role ''add'')
      = (Completed,
         ex_world\<lparr>trace :=
           [AddRoles 3 33 ''adm#2'',
            Respond False (RoleChanged 3 33 ''Added'' 2),
            ChannelSend 900 (RoleChanged 3 33 ''Added'' 2)]\<rparr>)"
  by (simp add: ex_defs invoke_def check_def is_admin_def get_admin_role_id_def load_config_def
      role_cmd_def role_ge_def Let_def respond_def emit_def log_def)


end
